theory Spec2Isabelle
  imports Main "HOL-Library.Word"
begin

section \<open>Machine types\<close>

text \<open>
  Addresses are 64-bit words, with \<open>nullptr\<close> the address 0. C++ \<open>unsigned\<close> is a
  32-bit word and \<open>size_t\<close> a 64-bit word; pointer arithmetic \<open>p + n\<close> on a byte
  pointer adds the zero-extended \<open>n\<close> to the address.
\<close>

type_synonym ptr = "64 word"
type_synonym unsigned = "32 word"
type_synonym size_t = "64 word"

definition nullptr :: ptr where
  "nullptr = 0"

section \<open>Protocol identifiers and memory areas\<close>

text \<open>
  Modelled from the spec: \<open>stack_ip.h\<close>, which declares \<open>enum class Protocol\<close>, is not
  among the sources. The enumerators are the ones \<open>StackParser.h\<close> switches over, and
  the spec's data model gives the same closed list.
\<close>

datatype Protocol = L2_ETHERNET | L2_VLAN | L3_IPv4 | L4_GRE | L4_UDP | L4_SCTP | END

text \<open>
  Modelled from the spec: \<open>binio::MCArea\<close> is not among the sources. The spec's layer
  view is a (pointer, length) pair that borrows from the backing buffer; the
  constructor call \<open>binio::MCArea(ptr, len)\<close> of \<open>StackParser.h\<close> builds that pair.
\<close>

record MCArea =
  area_ptr :: ptr
  area_len :: size_t

definition mk_MCArea :: "ptr \<Rightarrow> size_t \<Rightarrow> MCArea" where
  "mk_MCArea p n = \<lparr>area_ptr = p, area_len = n\<rparr>"

section \<open>The packet cursor\<close>

text \<open>
  Modelled from the spec: the base class \<open>DefaultPacketReader\<close> of \<open>StackParser\<close> is
  not among the sources. The spec describes it as a cursor over an immutable backing
  buffer: a position (byte offset into the buffer) and the number of remaining bytes,
  with the operations \<open>peek\<close>, \<open>advance\<close> and \<open>remaining_len\<close>.
\<close>

record Cursor =
  buffer_start :: ptr
  buffer :: "8 word list"
  position :: nat
  remaining :: nat

definition buffer_length :: "Cursor \<Rightarrow> nat" where
  "buffer_length c = length (buffer c)"

text \<open>Modelled from the spec: construction of the cursor over a caller-owned buffer.\<close>

definition Cursor_init :: "ptr \<Rightarrow> 8 word list \<Rightarrow> Cursor" where
  "Cursor_init start bytes =
     \<lparr>buffer_start = start, buffer = bytes, position = 0, remaining = length bytes\<rparr>"

datatype CursorStatus = Ok | OutOfBounds

text \<open>
  Modelled from the spec: \<open>advance(length) -> Ok | OutOfBounds\<close> fails if
  \<open>length > remaining\<close>; on success \<open>position += length\<close> and \<open>remaining -= length\<close>.
  The cursor after the call is returned with the status, so that a failed call's
  effect on the state is part of the result.
\<close>

definition advance :: "nat \<Rightarrow> Cursor \<Rightarrow> CursorStatus \<times> Cursor" where
  "advance len c =
     (if len > remaining c then (OutOfBounds, c)
      else (Ok, c\<lparr>position := position c + len, remaining := remaining c - len\<rparr>))"

text \<open>
  Modelled from the spec: \<open>peek(offset_from_position, length) -> view | OutOfBounds\<close>
  never mutates the position, and no operation reports bytes outside
  \<open>[position, position + remaining)\<close>.
\<close>

definition peek :: "nat \<Rightarrow> nat \<Rightarrow> Cursor \<Rightarrow> (8 word list) option \<times> Cursor" where
  "peek off len c =
     (if off + len > remaining c then (None, c)
      else (Some (take len (drop (position c + off) (buffer c))), c))"

text \<open>Modelled from the spec: \<open>remaining_len()\<close>, the bytes left from the position.\<close>

definition remaining_len :: "Cursor \<Rightarrow> nat \<times> Cursor" where
  "remaining_len c = (remaining c, c)"

text \<open>The cursor invariant of the spec's data model.\<close>

definition cursor_inv :: "Cursor \<Rightarrow> bool" where
  "cursor_inv c \<longleftrightarrow> position c + remaining c = buffer_length c"

datatype CursorOp = Peek nat nat | Advance nat | RemainingLen

fun cursor_op :: "CursorOp \<Rightarrow> Cursor \<Rightarrow> Cursor" where
  "cursor_op (Peek off len) c = snd (peek off len c)"
| "cursor_op (Advance len) c = snd (advance len c)"
| "cursor_op RemainingLen c = snd (remaining_len c)"

fun cursor_ops :: "CursorOp list \<Rightarrow> Cursor \<Rightarrow> Cursor" where
  "cursor_ops [] c = c"
| "cursor_ops (x # xs) c = cursor_ops xs (cursor_op x c)"

text \<open>
  Modelled from the spec: the members of \<open>DefaultPacketReader\<close> that \<open>StackParser.h\<close>
  uses. \<open>m_head\<close> points at the current position and \<open>available_area()\<close> is the view
  of the remaining buffer from there.
\<close>

definition m_head :: "Cursor \<Rightarrow> ptr" where
  "m_head c = buffer_start c + of_nat (position c)"

definition available_area :: "Cursor \<Rightarrow> MCArea" where
  "available_area c = mk_MCArea (m_head c) (of_nat (remaining c))"

section \<open>Protocol layer modules\<close>

text \<open>
  The headers \<open>Ethernet.h\<close>, \<open>Vlan.h\<close>, \<open>Gre.h\<close>, \<open>IPv4.h\<close>, \<open>Udp.h\<close> and \<open>Sctp.h\<close> are not
  among the sources, so the four static functions that \<open>StackParser.h\<close> calls on each of
  them are parameters of the model. \<open>validate_packet\<close> and \<open>next\<close> are called from
  non-const members with \<open>*this\<close>, so they may change the reader and return it;
  \<open>length_header\<close> and \<open>length_payload\<close> are called from const members and only read.
\<close>

record Layer =
  l_validate_packet :: "Cursor \<Rightarrow> bool \<times> Cursor"
  l_next :: "Cursor \<Rightarrow> Protocol \<times> Cursor"
  length_header :: "Cursor \<Rightarrow> unsigned"
  length_payload :: "Cursor \<Rightarrow> unsigned"

record Modules =
  Ethernet :: Layer
  Vlan :: Layer
  IPv4 :: Layer
  Gre :: Layer
  Udp :: Layer
  Sctp :: Layer

section \<open>StackParser\<close>

record StackParser =
  base :: Cursor
  proto :: Protocol

text \<open>The constructor: \<open>Base(pkt), proto(Protocol::END)\<close>.\<close>

definition StackParser_init :: "ptr \<Rightarrow> 8 word list \<Rightarrow> StackParser" where
  "StackParser_init start bytes = \<lparr>base = Cursor_init start bytes, proto = END\<rparr>"

text \<open>
  \<open>validate_packet(new_proto)\<close>: the switch calls the module of \<open>new_proto\<close>; \<open>result\<close>
  stays \<open>false\<close> in the default branch. It returns the protocol and does not assign
  \<open>proto\<close>.
\<close>

definition validate_packet :: "Modules \<Rightarrow> Protocol \<Rightarrow> StackParser \<Rightarrow> Protocol \<times> StackParser" where
  "validate_packet md new_proto s =
     (let (result, r) =
        (case new_proto of
           L2_ETHERNET \<Rightarrow> l_validate_packet (Ethernet md) (base s)
         | L2_VLAN \<Rightarrow> l_validate_packet (Vlan md) (base s)
         | L3_IPv4 \<Rightarrow> l_validate_packet (IPv4 md) (base s)
         | L4_GRE \<Rightarrow> l_validate_packet (Gre md) (base s)
         | L4_UDP \<Rightarrow> l_validate_packet (Udp md) (base s)
         | L4_SCTP \<Rightarrow> l_validate_packet (Sctp md) (base s)
         | END \<Rightarrow> (False, base s))
      in (if \<not> result then END else new_proto, s\<lparr>base := r\<rparr>))"

text \<open>\<open>parse(proto_first)\<close> assigns the validated protocol and returns \<open>proto != END\<close>.\<close>

definition parse :: "Modules \<Rightarrow> Protocol \<Rightarrow> StackParser \<Rightarrow> bool \<times> StackParser" where
  "parse md proto_first s =
     (let (p, s1) = validate_packet md proto_first s;
          s2 = s1\<lparr>proto := p\<rparr>
      in (proto s2 \<noteq> END, s2))"

definition protocol :: "StackParser \<Rightarrow> Protocol" where
  "protocol s = proto s"

text \<open>
  \<open>next()\<close>, here \<open>next_step\<close>: the switch over \<open>proto\<close> asks the current module for
  the next protocol, with \<open>END\<close> in the default branch, and the result of
  \<open>validate_packet(next_proto)\<close> is assigned to \<open>proto\<close> and returned.
\<close>

definition next_step :: "Modules \<Rightarrow> StackParser \<Rightarrow> Protocol \<times> StackParser" where
  "next_step md s =
     (let (next_proto, r) =
        (case proto s of
           L2_ETHERNET \<Rightarrow> l_next (Ethernet md) (base s)
         | L2_VLAN \<Rightarrow> l_next (Vlan md) (base s)
         | L3_IPv4 \<Rightarrow> l_next (IPv4 md) (base s)
         | L4_GRE \<Rightarrow> l_next (Gre md) (base s)
         | L4_UDP \<Rightarrow> l_next (Udp md) (base s)
         | L4_SCTP \<Rightarrow> l_next (Sctp md) (base s)
         | END \<Rightarrow> (END, base s));
          (p, s1) = validate_packet md next_proto (s\<lparr>base := r\<rparr>);
          s2 = s1\<lparr>proto := p\<rparr>
      in (proto s2, s2))"

definition packet :: "StackParser \<Rightarrow> MCArea" where
  "packet s = available_area (base s)"

text \<open>
  The private \<open>header(unsigned& out_hdr_len)\<close>: the out-parameter is passed in and
  returned; the default branch returns \<open>nullptr\<close> and leaves it as it was.
\<close>

definition header_ptr :: "Modules \<Rightarrow> StackParser \<Rightarrow> unsigned \<Rightarrow> ptr \<times> unsigned" where
  "header_ptr md s out_hdr_len =
     (case proto s of
        L2_ETHERNET \<Rightarrow> (m_head (base s), length_header (Ethernet md) (base s))
      | L2_VLAN \<Rightarrow> (m_head (base s), length_header (Vlan md) (base s))
      | L3_IPv4 \<Rightarrow> (m_head (base s), length_header (IPv4 md) (base s))
      | L4_GRE \<Rightarrow> (m_head (base s), length_header (Gre md) (base s))
      | L4_UDP \<Rightarrow> (m_head (base s), length_header (Udp md) (base s))
      | L4_SCTP \<Rightarrow> (m_head (base s), length_header (Sctp md) (base s))
      | END \<Rightarrow> (nullptr, out_hdr_len))"

text \<open>
  The private \<open>payload(unsigned& out_payload_len)\<close>: the switch sets the
  out-parameter, and its default branch returns \<open>nullptr\<close> (the inner \<open>None\<close>);
  after the switch \<open>header(hdr_len)\<close> fills \<open>hdr_len\<close>, which starts at 0, and the
  result is \<open>m_head + hdr_len\<close>.
\<close>

definition payload_ptr :: "Modules \<Rightarrow> StackParser \<Rightarrow> unsigned \<Rightarrow> ptr \<times> unsigned" where
  "payload_ptr md s out_payload_len =
     (let hdr_len = 0 in
      case (case proto s of
              L2_ETHERNET \<Rightarrow> Some (length_payload (Ethernet md) (base s))
            | L2_VLAN \<Rightarrow> Some (length_payload (Vlan md) (base s))
            | L3_IPv4 \<Rightarrow> Some (length_payload (IPv4 md) (base s))
            | L4_GRE \<Rightarrow> Some (length_payload (Gre md) (base s))
            | L4_UDP \<Rightarrow> Some (length_payload (Udp md) (base s))
            | L4_SCTP \<Rightarrow> Some (length_payload (Sctp md) (base s))
            | END \<Rightarrow> None) of
        None \<Rightarrow> (nullptr, out_payload_len)
      | Some out_payload_len1 \<Rightarrow>
          (let (_, hdr_len1) = header_ptr md s hdr_len
           in (m_head (base s) + ucast hdr_len1, out_payload_len1)))"

text \<open>The public \<open>header()\<close> and \<open>payload()\<close> wrap the pointer and the length in an area.\<close>

definition header :: "Modules \<Rightarrow> StackParser \<Rightarrow> MCArea" where
  "header md s =
     (let hdr_len = 0;
          (p, hdr_len1) = header_ptr md s hdr_len
      in mk_MCArea p (ucast hdr_len1))"

definition payload :: "Modules \<Rightarrow> StackParser \<Rightarrow> MCArea" where
  "payload md s =
     (let payload_len = 0;
          (p, payload_len1) = payload_ptr md s payload_len
      in mk_MCArea p (ucast payload_len1))"

text \<open>Calling \<open>next()\<close> \<open>n\<close> times in a row, collecting what each call returns.\<close>

fun next_times :: "Modules \<Rightarrow> nat \<Rightarrow> StackParser \<Rightarrow> Protocol list \<times> StackParser" where
  "next_times md 0 s = ([], s)"
| "next_times md (Suc n) s =
     (let (p, s1) = next_step md s;
          (ps, s2) = next_times md n s1
      in (p # ps, s2))"

text \<open>
  The four accessors are const member functions: a call returns a value and the parser
  it was called on, unchanged.
\<close>

datatype Accessor = Call_protocol | Call_header | Call_payload | Call_packet

datatype AccessorResult = Got_protocol Protocol | Got_area MCArea

fun call :: "Modules \<Rightarrow> Accessor \<Rightarrow> StackParser \<Rightarrow> AccessorResult \<times> StackParser" where
  "call md Call_protocol s = (Got_protocol (protocol s), s)"
| "call md Call_header s = (Got_area (header md s), s)"
| "call md Call_payload s = (Got_area (payload md s), s)"
| "call md Call_packet s = (Got_area (packet s), s)"

fun calls :: "Modules \<Rightarrow> Accessor list \<Rightarrow> StackParser \<Rightarrow> AccessorResult list \<times> StackParser" where
  "calls md [] s = ([], s)"
| "calls md (a # as) s =
     (let (x, s1) = call md a s;
          (xs, s2) = calls md as s1
      in (x # xs, s2))"

section \<open>Vocabulary of the properties\<close>

text \<open>The module that implements a protocol; \<open>END\<close> has none.\<close>

definition layer_of :: "Modules \<Rightarrow> Protocol \<Rightarrow> Layer option" where
  "layer_of md p =
     (case p of
        L2_ETHERNET \<Rightarrow> Some (Ethernet md)
      | L2_VLAN \<Rightarrow> Some (Vlan md)
      | L3_IPv4 \<Rightarrow> Some (IPv4 md)
      | L4_GRE \<Rightarrow> Some (Gre md)
      | L4_UDP \<Rightarrow> Some (Udp md)
      | L4_SCTP \<Rightarrow> Some (Sctp md)
      | END \<Rightarrow> None)"

text \<open>
  Whether the packet at reader \<open>r\<close> validates for protocol \<open>p\<close>: the answer of the
  module of \<open>p\<close>, and \<open>False\<close> for a protocol with no module.
\<close>

definition validates :: "Modules \<Rightarrow> Protocol \<Rightarrow> Cursor \<Rightarrow> bool" where
  "validates md p r =
     (case layer_of md p of None \<Rightarrow> False | Some l \<Rightarrow> fst (l_validate_packet l r))"

text \<open>The reader as the validation of protocol \<open>p\<close> leaves it.\<close>

definition validated_reader :: "Modules \<Rightarrow> Protocol \<Rightarrow> Cursor \<Rightarrow> Cursor" where
  "validated_reader md p r =
     (case layer_of md p of None \<Rightarrow> r | Some l \<Rightarrow> snd (l_validate_packet l r))"

text \<open>
  The candidate next protocol that the module of the current protocol names, with the
  reader as that module leaves it; \<open>END\<close> and the untouched reader when the current
  protocol has no module.
\<close>

definition candidate :: "Modules \<Rightarrow> StackParser \<Rightarrow> Protocol \<times> Cursor" where
  "candidate md s =
     (case layer_of md (proto s) of None \<Rightarrow> (END, base s) | Some l \<Rightarrow> l_next l (base s))"

section \<open>The protocol modules as the spec describes them\<close>

text \<open>
  Modelled from the spec: the protocol headers (\<open>Ethernet.h\<close> and the five others) are
  not among the sources. The spec gives each module four pure functions of the
  cursor: \<open>validate\<close> (must not advance the cursor), \<open>header_length\<close>,
  \<open>payload_length\<close> and \<open>next_protocol\<close> (inspects the header via peek, not advance).
  In \<open>next()\<close> the parser asks for \<open>next_protocol\<close> with the cursor unchanged and then
  advances the cursor past \<open>header_length\<close> bytes.
\<close>

record LayerSpec =
  validate :: "Cursor \<Rightarrow> bool"
  header_length :: "Cursor \<Rightarrow> nat"
  payload_length :: "Cursor \<Rightarrow> nat"
  next_protocol :: "Cursor \<Rightarrow> Protocol"

definition spec_layer :: "LayerSpec \<Rightarrow> Layer" where
  "spec_layer L =
     \<lparr>l_validate_packet = (\<lambda>c. (validate L c, c)),
      l_next = (\<lambda>c. (next_protocol L c, snd (advance (header_length L c) c))),
      length_header = (\<lambda>c. of_nat (header_length L c)),
      length_payload = (\<lambda>c. of_nat (payload_length L c))\<rparr>"

record ModulesSpec =
  Ethernet_spec :: LayerSpec
  Vlan_spec :: LayerSpec
  IPv4_spec :: LayerSpec
  Gre_spec :: LayerSpec
  Udp_spec :: LayerSpec
  Sctp_spec :: LayerSpec

definition spec_modules :: "ModulesSpec \<Rightarrow> Modules" where
  "spec_modules M =
     \<lparr>Ethernet = spec_layer (Ethernet_spec M), Vlan = spec_layer (Vlan_spec M),
      IPv4 = spec_layer (IPv4_spec M), Gre = spec_layer (Gre_spec M),
      Udp = spec_layer (Udp_spec M), Sctp = spec_layer (Sctp_spec M)\<rparr>"

definition layer_spec_of :: "ModulesSpec \<Rightarrow> Protocol \<Rightarrow> LayerSpec option" where
  "layer_spec_of M p =
     (case p of
        L2_ETHERNET \<Rightarrow> Some (Ethernet_spec M)
      | L2_VLAN \<Rightarrow> Some (Vlan_spec M)
      | L3_IPv4 \<Rightarrow> Some (IPv4_spec M)
      | L4_GRE \<Rightarrow> Some (Gre_spec M)
      | L4_UDP \<Rightarrow> Some (Udp_spec M)
      | L4_SCTP \<Rightarrow> Some (Sctp_spec M)
      | END \<Rightarrow> None)"

text \<open>
  The cursor that \<open>next()\<close> validates the candidate against: the current layer's header
  advance applied to the cursor, and the cursor itself when the current protocol is
  \<open>END\<close>.
\<close>

definition header_advance :: "ModulesSpec \<Rightarrow> StackParser \<Rightarrow> Cursor" where
  "header_advance M s =
     (case layer_spec_of M (proto s) of
        None \<Rightarrow> base s
      | Some L \<Rightarrow> snd (advance (header_length L (base s)) (base s)))"

section \<open>Sample modules\<close>

text \<open>
  A concrete instance of the module parameters, for evaluating the parser on concrete
  packets: every layer has a header of fixed size, validates when that many bytes
  remain, takes the rest of the buffer as payload and names a fixed next protocol.
\<close>

definition fixed_layer :: "nat \<Rightarrow> Protocol \<Rightarrow> LayerSpec" where
  "fixed_layer n nxt =
     \<lparr>validate = (\<lambda>c. n \<le> remaining c),
      header_length = (\<lambda>c. n),
      payload_length = (\<lambda>c. remaining c - n),
      next_protocol = (\<lambda>c. nxt)\<rparr>"

definition sample_spec :: ModulesSpec where
  "sample_spec =
     \<lparr>Ethernet_spec = fixed_layer 14 L3_IPv4, Vlan_spec = fixed_layer 4 L3_IPv4,
      IPv4_spec = fixed_layer 20 L4_UDP, Gre_spec = fixed_layer 4 L3_IPv4,
      Udp_spec = fixed_layer 8 END, Sctp_spec = fixed_layer 12 END\<rparr>"

definition sample_modules :: Modules where
  "sample_modules = spec_modules sample_spec"

text \<open>A 42-byte buffer at address 4096: room for 14 + 20 + 8 bytes of headers.\<close>

definition sample_bytes :: "8 word list" where
  "sample_bytes = replicate 42 0"

definition sample_parser :: StackParser where
  "sample_parser = StackParser_init 4096 sample_bytes"

section \<open>IntrusiveMap\<close>

text \<open>
  \<open>IntrusiveMap<K, V>\<close> links objects of type \<open>V\<close> that live outside the map; each
  carries a \<open>Hook\<close>. The map is generic in the key type \<open>K\<close>, as the template is. The
  memory that holds the hooks is the function \<open>nodes\<close> from the address of a \<open>V\<close> to its
  hook, and the caller's bucket array, which the map reaches through the pointer
  \<open>bucket_list\<close>, is a list.
\<close>

record 'k Hook =
  im_next :: ptr
  im_key :: 'k
  im_linked :: bool

text \<open>The field \<open>list\<close> of a bucket is \<open>b_list\<close> here, and \<open>size\<close> is \<open>b_size\<close>.\<close>

record Bucket =
  b_list :: ptr
  b_size :: size_t

record 'k IntrusiveMap =
  bucket_list_size :: size_t
  bucket_list :: "Bucket list"
  elements :: size_t
  nodes :: "ptr \<Rightarrow> 'k Hook"

text \<open>
  What C++ leaves undefined is a fault of the model: the remainder of a division by
  zero and an index beyond the bucket array.
\<close>

datatype fault = DivisionByZero | IndexOutOfRange

text \<open>The constructors \<open>Hook()\<close>, \<open>Bucket()\<close> and \<open>IntrusiveMap(bucket_list, bucket_list_size)\<close>.\<close>

definition Hook_init :: "'k::zero Hook" where
  "Hook_init = \<lparr>im_next = nullptr, im_key = 0, im_linked = False\<rparr>"

definition Bucket_init :: Bucket where
  "Bucket_init = \<lparr>b_list = nullptr, b_size = 0\<rparr>"

definition IntrusiveMap_init :: "Bucket list \<Rightarrow> size_t \<Rightarrow> (ptr \<Rightarrow> 'k Hook) \<Rightarrow> 'k IntrusiveMap" where
  "IntrusiveMap_init bl n h =
     \<lparr>bucket_list_size = n, bucket_list = bl, elements = 0, nodes = h\<rparr>"

definition sanity_check :: "'k Hook \<Rightarrow> bool" where
  "sanity_check v = (\<not> im_linked v)"

text \<open>
  The loop of the private \<open>find(Bucket& bucket, K key)\<close>, from the node \<open>cur\<close> on. It
  follows \<open>im_next\<close> until \<open>nullptr\<close> or a node with the key, and does not return on a
  cyclic chain without the key: the value \<open>None\<close>.
\<close>

partial_function (option) find_loop :: "(ptr \<Rightarrow> 'k Hook) \<Rightarrow> ptr \<Rightarrow> 'k \<Rightarrow> ptr option" where
  "find_loop h cur key =
     (if cur = nullptr then Some cur
      else if im_key (h cur) = key then Some cur
      else find_loop h (im_next (h cur)) key)"

declare find_loop.simps [code]

definition find_bucket :: "(ptr \<Rightarrow> 'k Hook) \<Rightarrow> Bucket \<Rightarrow> 'k \<Rightarrow> ptr option" where
  "find_bucket h bucket key = find_loop h (b_list bucket) key"

text \<open>\<open>link_front(bucket, key, value)\<close>, with the bucket given by its index in the array.\<close>

definition link_front :: "'k IntrusiveMap \<Rightarrow> nat \<Rightarrow> 'k \<Rightarrow> ptr \<Rightarrow> 'k IntrusiveMap" where
  "link_front m index key v =
     (let bucket = bucket_list m ! index;
          value1 = (nodes m v)\<lparr>im_next := b_list bucket\<rparr>;
          value2 = value1\<lparr>im_linked := True\<rparr>;
          value3 = value2\<lparr>im_key := key\<rparr>;
          bucket1 = bucket\<lparr>b_list := v\<rparr>;
          bucket2 = bucket1\<lparr>b_size := b_size bucket1 + 1\<rparr>
      in m\<lparr>nodes := (nodes m)(v := value3),
            bucket_list := (bucket_list m)[index := bucket2],
            elements := elements m + 1\<rparr>)"

text \<open>
  In \<open>key % bucket_list_size\<close> the right operand is a \<open>size_t\<close>, so the usual arithmetic
  conversions turn the key into a \<open>size_t\<close> before the remainder is taken. What that
  conversion does depends on \<open>K\<close>, so it is the parameter \<open>to_size_t\<close> of \<open>put\<close>. For the
  built-in integer types no wider than \<open>size_t\<close> it is the zero extension of an
  unsigned key and the sign extension of a signed key.
\<close>

definition unsigned_key :: "'k::len word \<Rightarrow> size_t" where
  "unsigned_key key = ucast key"

definition signed_key :: "'k::len word \<Rightarrow> size_t" where
  "signed_key key = scast key"

text \<open>
  \<open>put(key, value)\<close>, with \<open>value\<close> given by its address. The remainder is the one of
  \<open>size_t\<close>, taken after the check for a zero divisor; the outer \<open>None\<close> is a \<open>find\<close>
  that does not return.
\<close>

definition put ::
  "('k \<Rightarrow> size_t) \<Rightarrow> 'k IntrusiveMap \<Rightarrow> 'k \<Rightarrow> ptr \<Rightarrow> (fault + bool \<times> 'k IntrusiveMap) option" where
  "put to_size_t m key v =
     (if sanity_check (nodes m v) then
        if bucket_list_size m = 0 then Some (Inl DivisionByZero)
        else
          let index = unat (to_size_t key mod bucket_list_size m) in
          if length (bucket_list m) \<le> index then Some (Inl IndexOutOfRange)
          else
            case find_bucket (nodes m) (bucket_list m ! index) key of
              None \<Rightarrow> None
            | Some found \<Rightarrow>
                if found = nullptr then Some (Inr (True, link_front m index key v))
                else Some (Inr (False, m))
      else Some (Inr (False, m)))"

text \<open>
  A chain of nodes: \<open>chain h p ns\<close> says that following \<open>im_next\<close> from \<open>p\<close> visits
  exactly the nodes \<open>ns\<close> and then reaches \<open>nullptr\<close>.
\<close>

primrec chain :: "(ptr \<Rightarrow> 'k Hook) \<Rightarrow> ptr \<Rightarrow> ptr list \<Rightarrow> bool" where
  "chain h p [] \<longleftrightarrow> p = nullptr"
| "chain h p (n # ns) \<longleftrightarrow> p = n \<and> p \<noteq> nullptr \<and> chain h (im_next (h n)) ns"

text \<open>The bucket of a key: the remainder of the converted key, on \<open>size_t\<close>.\<close>

definition bucket_index :: "('k \<Rightarrow> size_t) \<Rightarrow> 'k IntrusiveMap \<Rightarrow> 'k \<Rightarrow> nat" where
  "bucket_index to_size_t m key = unat (to_size_t key mod bucket_list_size m)"

text \<open>
  A sample map over unsigned 16-bit keys: two buckets; the node at address 256 holds
  key 5 and is linked in bucket 1, the node at address 512 is not linked.
\<close>

definition sample_nodes :: "ptr \<Rightarrow> (16 word) Hook" where
  "sample_nodes =
     (\<lambda>_. Hook_init)(256 := \<lparr>im_next = nullptr, im_key = 5, im_linked = True\<rparr>)"

definition sample_map :: "(16 word) IntrusiveMap" where
  "sample_map =
     \<lparr>bucket_list_size = 2,
      bucket_list = [Bucket_init, \<lparr>b_list = 256, b_size = 1\<rparr>],
      elements = 1,
      nodes = sample_nodes\<rparr>"

text \<open>An empty map of seven buckets over signed 32-bit keys, as the constructors give it.\<close>

definition seven_buckets :: "(32 word) IntrusiveMap" where
  "seven_buckets = IntrusiveMap_init (replicate 7 Bucket_init) 7 (\<lambda>_. Hook_init)"

text \<open>The map that \<open>IntrusiveMap(nullptr, 0)\<close> constructs: no bucket at all.\<close>

definition no_buckets :: "(16 word) IntrusiveMap" where
  "no_buckets = IntrusiveMap_init [] 0 (\<lambda>_. Hook_init)"

section \<open>The parser's transitions\<close>

lemma validate_packet_eq:
  "validate_packet md p s =
     (if validates md p (base s) then p else END,
      s\<lparr>base := validated_reader md p (base s)\<rparr>)"
  by (cases p)
     (simp_all add: validate_packet_def validates_def validated_reader_def layer_of_def
        split_beta)

lemma next_step_eq:
  "next_step md s =
     (let (c, r) = candidate md s;
          p = (if validates md c r then c else END)
      in (p, s\<lparr>base := validated_reader md c r, proto := p\<rparr>))"
  by (cases "proto s")
     (simp_all add: next_step_def candidate_def layer_of_def validate_packet_eq split_beta
        Let_def)

lemma next_step_END: "proto s = END \<Longrightarrow> next_step md s = (END, s)"
  by (simp add: next_step_def validate_packet_def)

lemma call_state: "snd (call md a s) = s"
  by (cases a) simp_all

lemmas sample_defs =
  sample_modules_def spec_modules_def spec_layer_def sample_spec_def fixed_layer_def
  sample_parser_def StackParser_init_def Cursor_init_def sample_bytes_def

lemma sample_parse:
  "parse sample_modules L2_ETHERNET sample_parser =
     (True, sample_parser\<lparr>proto := L2_ETHERNET\<rparr>)"
  by (simp add: parse_def validate_packet_def sample_modules_def spec_modules_def
        spec_layer_def sample_spec_def fixed_layer_def sample_parser_def StackParser_init_def
        Cursor_init_def sample_bytes_def)

text \<open>
  C1: \<open>parse(first_protocol)\<close> validates the packet for \<open>first_protocol\<close> at the
  current cursor; the current protocol becomes \<open>first_protocol\<close> when the validation
  succeeds and \<open>END\<close> when it fails (a protocol with no module never validates), and
  the result is \<open>true\<close> exactly when the resulting current protocol is not \<open>END\<close>.
\<close>

theorem parse_sets_protocol:
  "protocol (snd (parse md first_protocol s)) =
     (if validates md first_protocol (base s) then first_protocol else END)
   \<and> fst (parse md first_protocol s) = (protocol (snd (parse md first_protocol s)) \<noteq> END)"
  by (simp add: parse_def protocol_def validate_packet_eq split_beta Let_def)

theorem parse_sets_protocol_witness:
  "fst (parse sample_modules L2_ETHERNET sample_parser)
   \<and> protocol (snd (parse sample_modules L2_ETHERNET sample_parser)) = L2_ETHERNET
   \<and> \<not> fst (parse sample_modules L3_IPv4 (StackParser_init 4096 [0, 0, 0]))
   \<and> protocol (snd (parse sample_modules L3_IPv4 (StackParser_init 4096 [0, 0, 0]))) = END
   \<and> protocol (snd (parse sample_modules END sample_parser)) = END"
proof -
  have v1: "validates sample_modules L2_ETHERNET (base sample_parser)"
    by (simp add: validates_def layer_of_def sample_defs)
  have v2: "\<not> validates sample_modules L3_IPv4 (base (StackParser_init 4096 [0, 0, 0]))"
    by (simp add: validates_def layer_of_def sample_defs)
  have v3: "\<not> validates sample_modules END (base sample_parser)"
    by (simp add: validates_def layer_of_def)
  from parse_sets_protocol [of sample_modules L2_ETHERNET sample_parser]
    parse_sets_protocol [of sample_modules L3_IPv4 "StackParser_init 4096 [0, 0, 0]"]
    parse_sets_protocol [of sample_modules END sample_parser]
    v1 v2 v3
  show ?thesis by simp
qed

text \<open>
  C2: what \<open>next()\<close> returns is what \<open>protocol()\<close> returns right after it: the
  candidate next protocol when it validates against the reader the current module
  left, and \<open>END\<close> when it does not validate or has no module.
\<close>

theorem next_returns_protocol:
  "fst (next_step md s) = protocol (snd (next_step md s))
   \<and> fst (next_step md s) =
       (if validates md (fst (candidate md s)) (snd (candidate md s))
        then fst (candidate md s) else END)"
  by (simp add: next_step_eq protocol_def split_beta Let_def)

theorem next_returns_protocol_witness:
  "fst (next_step sample_modules (sample_parser\<lparr>proto := L2_ETHERNET\<rparr>)) = L3_IPv4
   \<and> protocol (snd (next_step sample_modules (sample_parser\<lparr>proto := L2_ETHERNET\<rparr>))) = L3_IPv4
   \<and> fst (next_step sample_modules (sample_parser\<lparr>proto := L4_UDP\<rparr>)) = END
   \<and> protocol (snd (next_step sample_modules (sample_parser\<lparr>proto := L4_UDP\<rparr>))) = END"
proof -
  let ?e = "sample_parser\<lparr>proto := L2_ETHERNET\<rparr>" and ?u = "sample_parser\<lparr>proto := L4_UDP\<rparr>"
  have ce: "fst (candidate sample_modules ?e) = L3_IPv4"
    and cu: "fst (candidate sample_modules ?u) = END"
    by (simp_all add: candidate_def layer_of_def sample_defs)
  have ve: "validates sample_modules L3_IPv4 (snd (candidate sample_modules ?e))"
    by (simp add: validates_def candidate_def layer_of_def advance_def sample_defs)
  have vu: "\<not> validates sample_modules END (snd (candidate sample_modules ?u))"
    by (simp add: validates_def layer_of_def)
  from next_returns_protocol [of sample_modules ?e] ce ve
  have e: "fst (next_step sample_modules ?e) = L3_IPv4"
    "protocol (snd (next_step sample_modules ?e)) = fst (next_step sample_modules ?e)"
    by metis+
  from next_returns_protocol [of sample_modules ?u] cu vu
  have u: "fst (next_step sample_modules ?u) = END"
    "protocol (snd (next_step sample_modules ?u)) = fst (next_step sample_modules ?u)"
    by metis+
  from e u show ?thesis by simp
qed

text \<open>
  C3: \<open>END\<close> is terminal. On a parser whose current protocol is \<open>END\<close>, \<open>next()\<close>
  returns \<open>END\<close> and leaves the whole parser (current protocol and cursor) as it was,
  and so does any number of \<open>next()\<close> calls in a row.
\<close>

theorem END_is_terminal:
  "proto s = END \<Longrightarrow>
     next_step md s = (END, s) \<and> next_times md n s = (replicate n END, s)"
  by (induction n) (simp_all add: next_step_END)

theorem END_is_terminal_witness:
  "proto sample_parser = END
   \<and> next_step sample_modules sample_parser = (END, sample_parser)
   \<and> next_times sample_modules (Suc (Suc (Suc 0))) sample_parser =
       ([END, END, END], sample_parser)"
proof -
  have h: "proto sample_parser = END"
    by (simp add: sample_parser_def StackParser_init_def)
  from END_is_terminal [OF h, of sample_modules "Suc (Suc (Suc 0))"] h
  show ?thesis by simp
qed

text \<open>
  C4: when the current protocol is one of the six supported protocols, the payload
  view starts at the address of the header view plus the length of the header view.
\<close>

theorem header_payload_contiguous:
  "proto s \<noteq> END \<Longrightarrow>
     area_ptr (payload md s) = area_ptr (header md s) + area_len (header md s)"
  by (cases "proto s")
     (simp_all add: payload_def header_def payload_ptr_def header_ptr_def mk_MCArea_def)

theorem header_payload_contiguous_witness:
  "proto (snd (parse sample_modules L2_ETHERNET sample_parser)) \<noteq> END
   \<and> area_ptr (header sample_modules (snd (parse sample_modules L2_ETHERNET sample_parser)))
       = 4096
   \<and> area_len (header sample_modules (snd (parse sample_modules L2_ETHERNET sample_parser)))
       = 14
   \<and> area_ptr (payload sample_modules (snd (parse sample_modules L2_ETHERNET sample_parser)))
       = 4110"
proof -
  let ?s = "snd (parse sample_modules L2_ETHERNET sample_parser)"
  have s: "?s = sample_parser\<lparr>proto := L2_ETHERNET\<rparr>"
    by (simp add: sample_parse)
  have h: "proto ?s \<noteq> END"
    by (simp add: s)
  have "header sample_modules (sample_parser\<lparr>proto := L2_ETHERNET\<rparr>) = mk_MCArea 4096 14"
    by (simp add: header_def header_ptr_def sample_modules_def spec_modules_def
          spec_layer_def sample_spec_def fixed_layer_def sample_parser_def
          StackParser_init_def Cursor_init_def m_head_def)
  then have hdr: "header sample_modules ?s = mk_MCArea 4096 14"
    by (simp only: s)
  from header_payload_contiguous [OF h, of sample_modules] h hdr
  show ?thesis by (simp add: mk_MCArea_def)
qed

text \<open>
  C7: a freshly constructed parser has current protocol \<open>END\<close>: \<open>protocol()\<close> returns
  \<open>END\<close>, and so does a \<open>next()\<close> call on it.
\<close>

theorem fresh_parser_is_END:
  "protocol (StackParser_init start bytes) = END
   \<and> fst (next_step md (StackParser_init start bytes)) = END"
  by (simp add: protocol_def StackParser_init_def next_step_def validate_packet_def)

text \<open>
  C8: any sequence of calls of \<open>protocol()\<close>, \<open>header()\<close>, \<open>payload()\<close> and \<open>packet()\<close>
  leaves the parser as it was, and every call in the sequence returns what that
  accessor returns on the parser at the start; so repeated calls agree.
\<close>

theorem accessors_idempotent:
  "calls md as s = (map (\<lambda>a. fst (call md a s)) as, s)"
proof (induction as)
  case Nil
  show ?case by simp
next
  case (Cons a as)
  obtain x where x: "call md a s = (x, s)"
    by (metis call_state prod.collapse)
  with Cons show ?case by simp
qed

text \<open>
  C9: when the current protocol is \<open>END\<close>, \<open>header()\<close> and \<open>payload()\<close> return the view
  with a null pointer and length 0, and \<open>packet()\<close> returns the view of the remaining
  buffer: it starts at the cursor's position and has \<open>remaining\<close> bytes.
\<close>

theorem END_views:
  "proto s = END \<Longrightarrow>
     header md s = mk_MCArea nullptr 0 \<and> payload md s = mk_MCArea nullptr 0
     \<and> packet s =
         mk_MCArea (buffer_start (base s) + of_nat (position (base s)))
           (of_nat (remaining (base s)))"
  by (simp add: payload_def header_def payload_ptr_def header_ptr_def packet_def
        available_area_def m_head_def)

theorem END_views_witness:
  "proto sample_parser = END
   \<and> header sample_modules sample_parser = mk_MCArea nullptr 0
   \<and> payload sample_modules sample_parser = mk_MCArea nullptr 0
   \<and> packet sample_parser = mk_MCArea 4096 42"
proof -
  have h: "proto sample_parser = END"
    by (simp add: sample_parser_def StackParser_init_def)
  have b: "buffer_start (base sample_parser) = 4096" "position (base sample_parser) = 0"
    "remaining (base sample_parser) = 42"
    by (simp_all add: sample_parser_def StackParser_init_def Cursor_init_def sample_bytes_def)
  from END_views [OF h, of sample_modules] h b
  show ?thesis by simp
qed

section \<open>The cursor\<close>

lemma advance_inv: "cursor_inv c \<Longrightarrow> cursor_inv (snd (advance len c))"
  by (simp add: cursor_inv_def advance_def buffer_length_def)

lemma cursor_op_inv: "cursor_inv c \<Longrightarrow> cursor_inv (cursor_op x c)"
  by (cases x) (simp_all add: advance_inv peek_def remaining_len_def)

lemma cursor_ops_inv: "cursor_inv c \<Longrightarrow> cursor_inv (cursor_ops xs c)"
  by (induction xs arbitrary: c) (simp_all add: cursor_op_inv)

text \<open>
  C5: \<open>advance(length)\<close> fails exactly when \<open>length\<close> exceeds \<open>remaining\<close>, and a failed
  call returns \<open>OutOfBounds\<close> with the cursor as it was. A successful call adds
  \<open>length\<close> to \<open>position\<close> and takes it from \<open>remaining\<close>, where the difference is the
  integers' (it does not go below zero). \<open>position + remaining = buffer_length\<close> is
  kept by every sequence of cursor operations.
\<close>

theorem advance_checked:
  "(fst (advance len c) = OutOfBounds \<longleftrightarrow> remaining c < len)
   \<and> (remaining c < len \<longrightarrow> advance len c = (OutOfBounds, c))
   \<and> (len \<le> remaining c \<longrightarrow>
        fst (advance len c) = Ok
        \<and> position (snd (advance len c)) = position c + len
        \<and> int (remaining (snd (advance len c))) = int (remaining c) - int len
        \<and> buffer (snd (advance len c)) = buffer c)
   \<and> (cursor_inv c \<longrightarrow> cursor_inv (cursor_ops ops c))"
  by (simp add: advance_def cursor_ops_inv)

theorem advance_checked_witness:
  "advance 50 (Cursor_init 4096 sample_bytes) = (OutOfBounds, Cursor_init 4096 sample_bytes)
   \<and> fst (advance 14 (Cursor_init 4096 sample_bytes)) = Ok
   \<and> position (snd (advance 14 (Cursor_init 4096 sample_bytes))) = 14
   \<and> remaining (snd (advance 14 (Cursor_init 4096 sample_bytes))) = 28
   \<and> cursor_inv (cursor_ops [Advance 14, Peek 12 2, Advance 50, RemainingLen, Advance 28]
        (Cursor_init 4096 sample_bytes))"
proof -
  let ?c = "Cursor_init 4096 sample_bytes"
  have r: "remaining ?c = 42" "position ?c = 0"
    by (simp_all add: Cursor_init_def sample_bytes_def)
  have inv: "cursor_inv ?c"
    by (simp add: cursor_inv_def buffer_length_def Cursor_init_def)
  have big: "remaining ?c < 50" and small: "(14::nat) \<le> remaining ?c"
    by (simp_all add: r)
  from advance_checked [of 50 ?c] big
  have a: "advance 50 ?c = (OutOfBounds, ?c)" by blast
  from advance_checked [of 14 ?c] small
  have b: "fst (advance 14 ?c) = Ok" "position (snd (advance 14 ?c)) = position ?c + 14"
    "int (remaining (snd (advance 14 ?c))) = int (remaining ?c) - int 14"
    by blast+
  from advance_checked [of 14 ?c "[Advance 14, Peek 12 2, Advance 50, RemainingLen, Advance 28]"] inv
  have c: "cursor_inv (cursor_ops [Advance 14, Peek 12 2, Advance 50, RemainingLen, Advance 28] ?c)"
    by blast
  from b r have "remaining (snd (advance 14 ?c)) = 28" "position (snd (advance 14 ?c)) = 14"
    by simp_all
  with a b c show ?thesis by simp
qed

section \<open>The cursor under the parser's operations\<close>

lemma spec_validated_reader: "validated_reader (spec_modules M) p r = r"
  by (cases p) (simp_all add: validated_reader_def layer_of_def spec_modules_def spec_layer_def)

lemma spec_candidate:
  "candidate (spec_modules M) s =
     (case layer_spec_of M (proto s) of None \<Rightarrow> END | Some L \<Rightarrow> next_protocol L (base s),
      header_advance M s)"
  by (cases "proto s")
     (simp_all add: candidate_def layer_of_def layer_spec_of_def header_advance_def
        spec_modules_def spec_layer_def)

text \<open>
  C6: with the protocol modules as the spec describes them, the cursor (and so its
  position) is the same after the validation of a candidate protocol, after
  \<open>parse()\<close> and after each accessor, \<open>protocol()\<close> among them; the next-protocol
  identification reads the cursor of the current layer as it is; and the cursor after
  \<open>next()\<close> is the one that the header advance of the current layer gives, the only
  change.
\<close>

theorem cursor_moves_only_in_next:
  "base (snd (validate_packet (spec_modules M) p s)) = base s
   \<and> base (snd (parse (spec_modules M) p s)) = base s
   \<and> snd (call (spec_modules M) a s) = s
   \<and> fst (candidate (spec_modules M) s) =
       (case layer_spec_of M (proto s) of None \<Rightarrow> END | Some L \<Rightarrow> next_protocol L (base s))
   \<and> base (snd (next_step (spec_modules M) s)) = header_advance M s"
  by (simp add: validate_packet_eq parse_def next_step_eq spec_validated_reader spec_candidate
        call_state split_beta Let_def)

theorem cursor_moves_only_in_next_witness:
  "position (base (snd (validate_packet sample_modules L3_IPv4 sample_parser))) = 0
   \<and> position (base (snd (parse sample_modules L2_ETHERNET sample_parser))) = 0
   \<and> snd (call sample_modules Call_protocol sample_parser) = sample_parser
   \<and> position (base (snd (next_step sample_modules (sample_parser\<lparr>proto := L2_ETHERNET\<rparr>)))) = 14
   \<and> remaining (base (snd (next_step sample_modules (sample_parser\<lparr>proto := L2_ETHERNET\<rparr>)))) = 28"
proof -
  let ?e = "sample_parser\<lparr>proto := L2_ETHERNET\<rparr>"
  have b: "position (base sample_parser) = 0"
    by (simp add: sample_defs)
  have a: "position (header_advance sample_spec ?e) = 14"
    "remaining (header_advance sample_spec ?e) = 28"
    by (simp_all add: header_advance_def layer_spec_of_def advance_def sample_defs)
  from cursor_moves_only_in_next [of sample_spec L3_IPv4 sample_parser Call_protocol]
    cursor_moves_only_in_next [of sample_spec L2_ETHERNET sample_parser Call_protocol]
    cursor_moves_only_in_next [of sample_spec L2_ETHERNET ?e Call_protocol]
    a b
  show ?thesis by (simp add: sample_modules_def)
qed

section \<open>IntrusiveMap::put\<close>

lemma find_loop_chain:
  "chain h p ns \<Longrightarrow>
     find_loop h p key =
       Some (case List.find (\<lambda>n. im_key (h n) = key) ns of None \<Rightarrow> nullptr | Some n \<Rightarrow> n)"
proof (induction ns arbitrary: p)
  case Nil
  then show ?case by (simp add: find_loop.simps)
next
  case (Cons n ns)
  from Cons.prems have p: "p = n" "n \<noteq> nullptr" and rest: "chain h (im_next (h n)) ns"
    by auto
  show ?case
  proof (cases "im_key (h n) = key")
    case True
    with p show ?thesis by (simp add: find_loop.simps)
  next
    case False
    have "find_loop h p key = find_loop h (im_next (h n)) key"
      using p False by (subst find_loop.simps) simp
    with Cons.IH [OF rest] False show ?thesis by simp
  qed
qed

lemma chain_no_null: "chain h p ns \<Longrightarrow> nullptr \<notin> set ns"
  by (induction ns arbitrary: p) auto

lemma find_loop_present:
  assumes "chain h p ns"
  shows "\<exists>r. find_loop h p key = Some r
           \<and> (r = nullptr \<longleftrightarrow> \<not> (\<exists>n\<in>set ns. im_key (h n) = key))"
proof (cases "List.find (\<lambda>n. im_key (h n) = key) ns")
  case None
  then have "\<not> (\<exists>n\<in>set ns. im_key (h n) = key)"
    by (simp add: find_None_iff)
  with None show ?thesis
    using find_loop_chain [OF assms, of key] by simp
next
  case (Some n)
  then have "n \<in> set ns" "im_key (h n) = key"
    by (auto simp: find_Some_iff)
  moreover from this chain_no_null [OF assms] have "n \<noteq> nullptr" by auto
  ultimately show ?thesis
    using find_loop_chain [OF assms, of key] Some by auto
qed

lemma link_front_changes: "link_front m i key v \<noteq> m"
proof
  assume "link_front m i key v = m"
  then have "elements (link_front m i key v) = elements m" by simp
  then show False by (simp add: link_front_def Let_def)
qed

lemma Hook_overwrite:
  "(x :: 'k Hook)\<lparr>im_next := a, im_linked := l, im_key := k\<rparr> =
     \<lparr>im_next = a, im_key = k, im_linked = l\<rparr>"
  by (cases x) simp

lemma Bucket_overwrite:
  "(b :: Bucket)\<lparr>b_list := a, b_size := n\<rparr> = \<lparr>b_list = a, b_size = n\<rparr>"
  by (cases b) simp

lemma link_front_fields:
  "link_front m i key v =
     m\<lparr>nodes := (nodes m)(v := \<lparr>im_next = b_list (bucket_list m ! i), im_key = key, im_linked = True\<rparr>),
       bucket_list := (bucket_list m)[i := \<lparr>b_list = v, b_size = b_size (bucket_list m ! i) + 1\<rparr>],
       elements := elements m + 1\<rparr>"
  by (simp add: link_front_def Let_def Hook_overwrite Bucket_overwrite)

text \<open>Without buckets the remainder \<open>key % bucket_list_size\<close> is a division by zero.\<close>

lemma put_zero_buckets:
  "bucket_list_size m = 0 \<Longrightarrow> \<not> im_linked (nodes m v) \<Longrightarrow>
     put to_size_t m key v = Some (Inl DivisionByZero)"
  by (simp add: put_def sanity_check_def)

lemma bucket_index_less:
  "bucket_list_size m \<noteq> 0 \<Longrightarrow>
     bucket_index to_size_t m key < unat (bucket_list_size m)"
  by (simp add: bucket_index_def word_neq_0_conv word_mod_less_divisor unat_mono)

text \<open>
  A signed key is sign-extended: the 32-bit key -1 is the \<open>size_t\<close> \<open>2^64 - 1\<close>, whose
  remainder by 7 is 1, where the zero extension \<open>2^32 - 1\<close> has the remainder 3.
\<close>

lemma signed_key_bucket:
  "bucket_index signed_key seven_buckets (- 1) = 1
   \<and> bucket_index unsigned_key seven_buckets (- 1) = 3"
proof -
  have "unat ((ucast (- 1 :: 32 word) :: size_t) mod 7) = 3"
    by code_simp
  then show ?thesis
    by (simp add: bucket_index_def signed_key_def unsigned_key_def seven_buckets_def
          IntrusiveMap_init_def)
qed

text \<open>
  C10, as the claim states it, fails on the map without buckets: the node is not
  linked and no node with the key is present, but \<open>put\<close> neither links the node nor
  returns \<open>true\<close>; the remainder by zero is undefined.
\<close>

theorem put_no_buckets_counterexample:
  "\<not> im_linked (nodes no_buckets 512)
   \<and> bucket_list no_buckets = []
   \<and> put unsigned_key no_buckets 5 512 = Some (Inl DivisionByZero)"
  by (simp add: put_def sanity_check_def no_buckets_def IntrusiveMap_init_def Hook_init_def)

text \<open>
  C10, amended: on a map with at least one bucket, a bucket array of that size and a
  null-terminated chain \<open>ns\<close> in the key's bucket, \<open>put(key, value)\<close> returns, whatever
  the conversion of the key to \<open>size_t\<close>. It returns \<open>false\<close> with the map and the nodes
  unchanged if and only if the node is already linked or a node of the chain holds an
  equal key. Otherwise it returns \<open>true\<close>, and the node is the new head of that bucket
  with the old head as its \<open>im_next\<close>, its \<open>im_linked\<close> set and its \<open>im_key\<close> the key; the
  bucket's size and the element count are one more; nothing else changes.
\<close>

theorem put_links_unless_present:
  assumes size: "bucket_list_size m \<noteq> 0"
    and len: "length (bucket_list m) = unat (bucket_list_size m)"
    and ch: "chain (nodes m) (b_list (bucket_list m ! bucket_index to_size_t m key)) ns"
  shows
    "(put to_size_t m key v = Some (Inr (False, m))
        \<longleftrightarrow> im_linked (nodes m v) \<or> (\<exists>n\<in>set ns. im_key (nodes m n) = key))
     \<and> (\<not> (im_linked (nodes m v) \<or> (\<exists>n\<in>set ns. im_key (nodes m n) = key)) \<longrightarrow>
          put to_size_t m key v =
            Some (Inr (True,
              m\<lparr>nodes := (nodes m)(v :=
                   \<lparr>im_next = b_list (bucket_list m ! bucket_index to_size_t m key),
                    im_key = key, im_linked = True\<rparr>),
                bucket_list := (bucket_list m)[bucket_index to_size_t m key :=
                   \<lparr>b_list = v,
                    b_size = b_size (bucket_list m ! bucket_index to_size_t m key) + 1\<rparr>],
                elements := elements m + 1\<rparr>)))"
proof -
  let ?i = "bucket_index to_size_t m key"
  from bucket_index_less [OF size] have idx: "?i < length (bucket_list m)"
    by (simp add: len)
  from find_loop_present [OF ch, of key]
  obtain r where r: "find_loop (nodes m) (b_list (bucket_list m ! ?i)) key = Some r"
    and rn: "r = nullptr \<longleftrightarrow> \<not> (\<exists>n\<in>set ns. im_key (nodes m n) = key)"
    by blast
  have put_eq: "put to_size_t m key v =
      (if im_linked (nodes m v) then Some (Inr (False, m))
       else if r = nullptr then Some (Inr (True, link_front m ?i key v))
       else Some (Inr (False, m)))"
    using size idx r
    by (simp add: put_def sanity_check_def find_bucket_def bucket_index_def Let_def)
  show ?thesis
    using rn link_front_changes [of m ?i key v]
    by (auto simp: put_eq link_front_fields [symmetric])
qed

theorem put_links_unless_present_witness:
  "bucket_list_size sample_map \<noteq> 0
   \<and> length (bucket_list sample_map) = unat (bucket_list_size sample_map)
   \<and> chain (nodes sample_map)
       (b_list (bucket_list sample_map ! bucket_index unsigned_key sample_map 7)) [256]
   \<and> chain (nodes sample_map)
       (b_list (bucket_list sample_map ! bucket_index unsigned_key sample_map 5)) [256]
   \<and> put unsigned_key sample_map 5 512 = Some (Inr (False, sample_map))
   \<and> (\<exists>m'. put unsigned_key sample_map 7 512 = Some (Inr (True, m'))
          \<and> elements m' = 2
          \<and> bucket_list m' = [Bucket_init, \<lparr>b_list = 512, b_size = 2\<rparr>]
          \<and> nodes m' 512 = \<lparr>im_next = 256, im_key = 7, im_linked = True\<rparr>
          \<and> nodes m' 256 = nodes sample_map 256)
   \<and> (\<exists>m'. put signed_key seven_buckets (- 1) 512 = Some (Inr (True, m'))
          \<and> elements m' = 1
          \<and> bucket_list m' ! 1 = \<lparr>b_list = 512, b_size = 1\<rparr>
          \<and> nodes m' 512 = \<lparr>im_next = nullptr, im_key = - 1, im_linked = True\<rparr>)"
proof -
  have size: "bucket_list_size sample_map \<noteq> 0"
    by (simp add: sample_map_def)
  have len: "length (bucket_list sample_map) = unat (bucket_list_size sample_map)"
    by (simp add: sample_map_def)
  have i7: "bucket_index unsigned_key sample_map 7 = 1"
    and i5: "bucket_index unsigned_key sample_map 5 = 1"
    by (simp_all add: bucket_index_def unsigned_key_def sample_map_def)
  have ch1: "chain (nodes sample_map) (b_list (bucket_list sample_map ! 1)) [256]"
    by (simp add: sample_map_def sample_nodes_def nullptr_def)
  have ch7: "chain (nodes sample_map)
      (b_list (bucket_list sample_map ! bucket_index unsigned_key sample_map 7)) [256]"
    and ch5: "chain (nodes sample_map)
      (b_list (bucket_list sample_map ! bucket_index unsigned_key sample_map 5)) [256]"
    using ch1 by (simp_all only: i7 i5)
  have free: "\<not> im_linked (nodes sample_map 512)"
    by (simp add: sample_map_def sample_nodes_def Hook_init_def)
  have k: "im_key (nodes sample_map 256) = 5"
    by (simp add: sample_map_def sample_nodes_def)
  from put_links_unless_present [OF size len ch5, of 512] k
  have a: "put unsigned_key sample_map 5 512 = Some (Inr (False, sample_map))"
    by simp
  from put_links_unless_present [OF size len ch7, of 512] free k
  have b: "put unsigned_key sample_map 7 512 =
      Some (Inr (True,
        sample_map\<lparr>nodes := (nodes sample_map)(512 :=
             \<lparr>im_next = b_list (bucket_list sample_map ! bucket_index unsigned_key sample_map 7),
              im_key = 7, im_linked = True\<rparr>),
          bucket_list := (bucket_list sample_map)[bucket_index unsigned_key sample_map 7 :=
             \<lparr>b_list = 512,
              b_size = b_size (bucket_list sample_map ! bucket_index unsigned_key sample_map 7) + 1\<rparr>],
          elements := elements sample_map + 1\<rparr>))"
    by simp
  have c: "elements sample_map + 1 = 2"
    "(bucket_list sample_map)[1 := \<lparr>b_list = 512, b_size = b_size (bucket_list sample_map ! 1) + 1\<rparr>]
       = [Bucket_init, \<lparr>b_list = 512, b_size = 2\<rparr>]"
    "b_list (bucket_list sample_map ! 1) = 256"
    by (simp_all add: sample_map_def)
  from b c have d: "\<exists>m'. put unsigned_key sample_map 7 512 = Some (Inr (True, m'))
      \<and> elements m' = 2
      \<and> bucket_list m' = [Bucket_init, \<lparr>b_list = 512, b_size = 2\<rparr>]
      \<and> nodes m' 512 = \<lparr>im_next = 256, im_key = 7, im_linked = True\<rparr>
      \<and> nodes m' 256 = nodes sample_map 256"
    by (simp add: i7)
  have size7: "bucket_list_size seven_buckets \<noteq> 0"
    and len7: "length (bucket_list seven_buckets) = unat (bucket_list_size seven_buckets)"
    by (simp_all add: seven_buckets_def IntrusiveMap_init_def)
  have j: "bucket_index signed_key seven_buckets (- 1) = 1"
    by (simp add: bucket_index_def signed_key_def seven_buckets_def IntrusiveMap_init_def)
  have b1: "bucket_list seven_buckets ! Suc 0 = Bucket_init"
    by (simp add: seven_buckets_def IntrusiveMap_init_def)
  have "chain (nodes seven_buckets) (b_list (bucket_list seven_buckets ! 1)) []"
    by (simp add: b1 Bucket_init_def)
  then have chs: "chain (nodes seven_buckets)
      (b_list (bucket_list seven_buckets ! bucket_index signed_key seven_buckets (- 1))) []"
    by (simp only: j)
  have free7: "\<not> im_linked (nodes seven_buckets 512)"
    by (simp add: seven_buckets_def IntrusiveMap_init_def Hook_init_def)
  from put_links_unless_present [OF size7 len7 chs, of 512] free7
  have e: "put signed_key seven_buckets (- 1) 512 =
      Some (Inr (True,
        seven_buckets\<lparr>nodes := (nodes seven_buckets)(512 :=
             \<lparr>im_next = b_list (bucket_list seven_buckets ! bucket_index signed_key seven_buckets (- 1)),
              im_key = - 1, im_linked = True\<rparr>),
          bucket_list := (bucket_list seven_buckets)[bucket_index signed_key seven_buckets (- 1) :=
             \<lparr>b_list = 512,
              b_size = b_size (bucket_list seven_buckets ! bucket_index signed_key seven_buckets (- 1)) + 1\<rparr>],
          elements := elements seven_buckets + 1\<rparr>))"
    by simp
  have c7: "elements seven_buckets + 1 = 1" "(1::nat) < length (bucket_list seven_buckets)"
    by (simp_all add: seven_buckets_def IntrusiveMap_init_def)
  from e c7 have f: "\<exists>m'. put signed_key seven_buckets (- 1) 512 = Some (Inr (True, m'))
      \<and> elements m' = 1
      \<and> bucket_list m' ! 1 = \<lparr>b_list = 512, b_size = 1\<rparr>
      \<and> nodes m' 512 = \<lparr>im_next = nullptr, im_key = - 1, im_linked = True\<rparr>"
    by (simp add: j b1 Bucket_init_def)
  from size len ch7 ch5 a d f show ?thesis
    by blast
qed

end
